theory Spec2Isabelle
  imports Main "HOL-Library.Sublist"
begin

section \<open>The JavaScript run time the library relies on\<close>

text \<open>
  The library is TypeScript running on a JavaScript engine. The parts of the run time
  that \<^verbatim>\<open>src/FS/index.tsx\<close> and \<^verbatim>\<open>src/Camera/index.tsx\<close> call are embedded here
  with their ECMAScript meaning: \<^verbatim>\<open>String.prototype.includes\<close>, the operator \<^verbatim>\<open>||\<close>
  on optional strings, \<^verbatim>\<open>Array.prototype.map\<close> with a callback that may throw,
  \<^verbatim>\<open>Promise.all\<close> and \<^verbatim>\<open>Promise.allSettled\<close>.
\<close>

text \<open>
  \<^verbatim>\<open>s.includes(searchString)\<close>: \<open>searchString\<close> occurs in \<open>s\<close> as a contiguous run of
  characters, compared exactly (case matters).
\<close>

definition String_includes :: "string \<Rightarrow> string \<Rightarrow> bool" where
  "String_includes s searchString = sublist searchString s"

text \<open>
  \<^verbatim>\<open>a || b\<close> on two optional strings: \<open>a\<close> when it is truthy (present and not the empty
  string), \<open>b\<close> otherwise.
\<close>

definition js_or :: "string option \<Rightarrow> string option \<Rightarrow> string option" where
  "js_or a b = (case a of None \<Rightarrow> b | Some s \<Rightarrow> if s = [] then b else Some s)"

text \<open>
  The only exception the code of \<open>uploadFiles\<close> can raise by itself: calling the method
  \<^verbatim>\<open>includes\<close> on \<^verbatim>\<open>undefined\<close> or \<^verbatim>\<open>null\<close> is a \<^verbatim>\<open>TypeError\<close>.
\<close>

datatype exn = TypeError

text \<open>
  \<^verbatim>\<open>xs.map(f)\<close> calls \<open>f\<close> on the elements from left to right, passing the element and its
  index; the first call that throws ends the whole \<open>map\<close> with that exception.
\<close>

fun array_map :: "(nat \<Rightarrow> 'a \<Rightarrow> exn + 'b) \<Rightarrow> nat \<Rightarrow> 'a list \<Rightarrow> exn + 'b list" where
  "array_map f i [] = Inr []"
| "array_map f i (x # xs) =
     (case f i x of
        Inl e \<Rightarrow> Inl e
      | Inr y \<Rightarrow> (case array_map f (Suc i) xs of
                   Inl e \<Rightarrow> Inl e
                 | Inr ys \<Rightarrow> Inr (y # ys)))"

text \<open>
  \<^verbatim>\<open>PromiseSettledResult<T>\<close>: \<^verbatim>\<open>{status: 'fulfilled', value}\<close> or
  \<^verbatim>\<open>{status: 'rejected', reason}\<close>.
\<close>

datatype ('v, 'e) PromiseSettledResult = fulfilled 'v | rejected 'e

fun is_rejected :: "('v, 'e) PromiseSettledResult \<Rightarrow> bool" where
  "is_rejected (rejected e) = True"
| "is_rejected (fulfilled v) = False"

fun is_fulfilled :: "('v, 'e) PromiseSettledResult \<Rightarrow> bool" where
  "is_fulfilled (fulfilled v) = True"
| "is_fulfilled (rejected e) = False"

text \<open>
  A promise that settles: how it settles, and its place \<open>settledAt\<close> in the order of the
  event loop (a smaller number settles earlier). Every request is taken to settle; a
  request that stays pending for ever is outside this model.
\<close>

record ('v, 'e) promise =
  settledAt :: nat
  outcome :: "('v, 'e) PromiseSettledResult"

text \<open>
  \<^verbatim>\<open>Promise.allSettled(promises)\<close> fulfils with the settled results in the order of
  the input.
\<close>

definition Promise_allSettled :: "('v, 'e) promise list \<Rightarrow> ('v, 'e) PromiseSettledResult list" where
  "Promise_allSettled promises = map outcome promises"

text \<open>
  The rejection that \<^verbatim>\<open>Promise.all\<close> sees first: the rejected promise that settles
  earliest, and among rejected promises that settle together the one earliest in the
  input. The result is its time and its reason.
\<close>

fun first_rejection :: "('v, 'e) promise list \<Rightarrow> (nat \<times> 'e) option" where
  "first_rejection [] = None"
| "first_rejection (p # ps) =
     (case outcome p of
        fulfilled v \<Rightarrow> first_rejection ps
      | rejected e \<Rightarrow>
          (case first_rejection ps of
             None \<Rightarrow> Some (settledAt p, e)
           | Some (t, e') \<Rightarrow> if settledAt p \<le> t then Some (settledAt p, e) else Some (t, e')))"

fun the_value :: "('v, 'e) PromiseSettledResult \<Rightarrow> 'v list" where
  "the_value (fulfilled v) = [v]"
| "the_value (rejected e) = []"

text \<open>
  \<^verbatim>\<open>Promise.all(promises)\<close> fulfils with the list of values when every promise fulfils,
  and rejects with the reason of the first rejection otherwise.
\<close>

definition Promise_all :: "('v, 'e) promise list \<Rightarrow> ('v list, 'e) PromiseSettledResult" where
  "Promise_all promises =
     (case first_rejection promises of
        None \<Rightarrow> fulfilled (concat (map (the_value \<circ> outcome) promises))
      | Some (t, e) \<Rightarrow> rejected e)"

section \<open>File upload: \<^verbatim>\<open>src/FS/index.tsx\<close>\<close>

text \<open>
  \<^verbatim>\<open>FileToUpload = {data: Asset & DocumentPickerResponse, uploadUrl: string}\<close>.
  Of \<open>data\<close> the code reads \<open>uri\<close>, \<open>type\<close>, \<open>fileName\<close> and \<open>name\<close>. The declared type of
  \<open>type\<close> is \<open>string\<close>, but both pickers deliver records in which it may be missing
  (\<^verbatim>\<open>type?: string\<close> in an asset, \<^verbatim>\<open>string | null\<close> in a picked document), so the
  field is optional here and the run-time failure on a missing one is a branch of the
  model.
\<close>

record FileData =
  uri :: string
  type :: "string option"
  fileName :: "string option"
  name :: "string option"

record FileToUpload =
  data :: FileData
  uploadUrl :: string

text \<open>The object appended to the form: \<^verbatim>\<open>{uri, type, name}\<close>.\<close>

datatype FormDataPart = FormDataPart (part_uri: string) (part_type: string) (part_name: "string option")

text \<open>A \<^verbatim>\<open>FormData\<close> is the list of its fields, each a field name and a value.\<close>

type_synonym FormData = "(string \<times> FormDataPart) list"

definition FormData_append :: "FormData \<Rightarrow> string \<Rightarrow> FormDataPart \<Rightarrow> FormData" where
  "FormData_append fd field v = fd @ [(field, v)]"

text \<open>
  The arguments of one call of \<^verbatim>\<open>fetch\<close>: the URL and the \<^verbatim>\<open>init\<close> object, whose
  property \<^verbatim>\<open>method\<close> is the field \<open>http_method\<close> (the plain name is a keyword of
  Isabelle).
\<close>

record Request =
  url :: string
  http_method :: string
  body :: FormData

text \<open>
  \<^verbatim>\<open>fetch\<close> is the network: the promise it returns for the \<open>i\<close>-th request of a call of
  \<open>uploadFiles\<close>. It never throws; a failure is a promise that rejects.
\<close>

type_synonym ('v, 'e) fetch = "nat \<Rightarrow> Request \<Rightarrow> ('v, 'e) promise"

text \<open>\<^verbatim>\<open>UploadFileResponse\<close>; an absent optional field is \<open>None\<close>.\<close>

record ('v, 'e) UploadFileResponse =
  status :: string
  ok :: bool
  error :: "'e option"
  failedUploads :: "('v, 'e) PromiseSettledResult list option"

definition determineFileOrImage :: "string \<Rightarrow> string" where
  "determineFileOrImage fileType = (if String_includes fileType ''image'' then ''image'' else ''file'')"

text \<open>
  The callback of \<^verbatim>\<open>files.map\<close> (lines 121 to 134): build the form with its one field
  and post it. \<^verbatim>\<open>determineFileOrImage(file.data.type)\<close> throws when the type is missing.
\<close>

definition buildFormData :: "FileToUpload \<Rightarrow> exn + FormData" where
  "buildFormData file =
     (case type (data file) of
        None \<Rightarrow> Inl TypeError
      | Some fileType \<Rightarrow>
          Inr (FormData_append [] (determineFileOrImage fileType)
                 (FormDataPart (uri (data file)) fileType
                    (js_or (fileName (data file)) (name (data file))))))"

definition startUpload :: "('v, 'e) fetch \<Rightarrow> nat \<Rightarrow> FileToUpload \<Rightarrow> exn + ('v, 'e) promise" where
  "startUpload fetch i file =
     (case buildFormData file of
        Inl e \<Rightarrow> Inl e
      | Inr fd \<Rightarrow> Inr (fetch i \<lparr>url = uploadUrl file, http_method = ''POST'', body = fd\<rparr>))"

text \<open>\<^verbatim>\<open>const promises = files.map(...)\<close>.\<close>

definition launch :: "('v, 'e) fetch \<Rightarrow> FileToUpload list \<Rightarrow> exn + ('v, 'e) promise list" where
  "launch fetch files = array_map (startUpload fetch) 0 files"

text \<open>
  \<open>uploadFiles\<close> is an \<^verbatim>\<open>async\<close> function: the result is how its promise settles, \<open>Inr\<close>
  the value it resolves with and \<open>Inl\<close> the exception it rejects with. The \<open>map\<close> is
  outside the \<^verbatim>\<open>try\<close>, so an exception there rejects the promise; the \<^verbatim>\<open>await\<close> of
  \<open>Promise.all\<close> is inside it, so its rejection reaches the \<^verbatim>\<open>catch\<close>.
\<close>

definition uploadFiles ::
  "('v, 'e) fetch \<Rightarrow> FileToUpload list \<Rightarrow> bool \<Rightarrow> exn + ('v, 'e) UploadFileResponse" where
  "uploadFiles fetch files strict =
     (case launch fetch files of
        Inl e \<Rightarrow> Inl e
      | Inr promises \<Rightarrow>
          if strict then
            (case Promise_all promises of
               fulfilled vs \<Rightarrow>
                 Inr \<lparr>status = ''ALL_FILES_UPLOADED'', ok = True, error = None,
                      failedUploads = None\<rparr>
             | rejected err \<Rightarrow>
                 Inr \<lparr>status = ''AN_UPLOAD_FAILED'', ok = False, error = Some err,
                      failedUploads = None\<rparr>)
          else
            (let resolves = Promise_allSettled promises;
                 rejecteds = filter (\<lambda>resolve. is_rejected resolve) resolves
             in if length rejecteds = length resolves then
                  Inr \<lparr>status = ''ONE_OR_MORE_UPLOADS_FAILED'', ok = False, error = None,
                       failedUploads = Some rejecteds\<rparr>
                else
                  Inr \<lparr>status = ''ONE_OR_MORE_UPLOADS_FAILED'', ok = True, error = None,
                       failedUploads = Some rejecteds\<rparr>))"

text \<open>The parameter \<open>strict\<close> defaults to \<open>true\<close>.\<close>

definition uploadFiles_default ::
  "('v, 'e) fetch \<Rightarrow> FileToUpload list \<Rightarrow> exn + ('v, 'e) UploadFileResponse" where
  "uploadFiles_default fetch files = uploadFiles fetch files True"

section \<open>Picker responses: \<^verbatim>\<open>src/FS/index.tsx\<close> and \<^verbatim>\<open>src/Camera/index.tsx\<close>\<close>

text \<open>
  The callbacks are the caller's code. A call of one runs on the caller's state \<open>'s\<close>
  and either returns (\<open>None\<close>) or throws (\<open>Some x\<close>), leaving a new state. The
  statements of a function body are such computations in sequence: an exception ends
  the sequence.
\<close>

type_synonym ('s, 'x) effect = "'s \<Rightarrow> 'x option \<times> 's"

definition skip :: "('s, 'x) effect" where
  "skip s = (None, s)"

definition throw :: "'x \<Rightarrow> ('s, 'x) effect" where
  "throw x s = (Some x, s)"

definition seq :: "('s, 'x) effect \<Rightarrow> ('s, 'x) effect \<Rightarrow> ('s, 'x) effect" where
  "seq m k s = (case m s of (Some x, s') \<Rightarrow> (Some x, s') | (None, s') \<Rightarrow> k s')"

definition try_catch :: "('s, 'x) effect \<Rightarrow> ('x \<Rightarrow> ('s, 'x) effect) \<Rightarrow> ('s, 'x) effect" where
  "try_catch m handler s = (case m s of (Some x, s') \<Rightarrow> handler x s' | (None, s') \<Rightarrow> (None, s'))"

text \<open>
  \<^verbatim>\<open>ErrorCode\<close> and \<^verbatim>\<open>ImagePickerResponse\<close> are declared by the image picker:
  the error code is one of three non-empty strings, and every field of the response is
  optional. \<^verbatim>\<open>if (errorCode)\<close> therefore holds exactly when the code is present, and
  \<^verbatim>\<open>if (didCancel)\<close> exactly when the flag is present and true.
\<close>

datatype ErrorCode = camera_unavailable | permission | others

record 'a ImagePickerResponse =
  assets :: "'a list option"
  didCancel :: "bool option"
  errorCode :: "ErrorCode option"
  errorMessage :: "string option"

definition truthy :: "bool option \<Rightarrow> bool" where
  "truthy b = (b = Some True)"

text \<open>
  \<^verbatim>\<open>SuccessCallback = (assets: Asset[] | undefined) => void\<close> and
  \<^verbatim>\<open>ErrorCallback = (error, message?) => void\<close>.
\<close>

type_synonym ('a, 's, 'x) SuccessCallback = "'a list option \<Rightarrow> ('s, 'x) effect"

type_synonym ('c, 's, 'x) ErrorCallback = "'c \<Rightarrow> string option \<Rightarrow> ('s, 'x) effect"

definition handleImageLibraryResponse ::
  "('a, 's, 'x) SuccessCallback \<Rightarrow> (ErrorCode, 's, 'x) ErrorCallback \<Rightarrow>
   'a ImagePickerResponse \<Rightarrow> ('s, 'x) effect" where
  "handleImageLibraryResponse success failure response =
     (if truthy (didCancel response) then skip
      else seq (case errorCode response of
                  Some code \<Rightarrow> failure code (errorMessage response)
                | None \<Rightarrow> skip)
               (success (assets response)))"

definition handleCameraResponse ::
  "('a, 's, 'x) SuccessCallback \<Rightarrow> (ErrorCode, 's, 'x) ErrorCallback \<Rightarrow>
   'a ImagePickerResponse \<Rightarrow> ('s, 'x) effect" where
  "handleCameraResponse success failure response =
     (if truthy (didCancel response) then skip
      else seq (case errorCode response of
                  Some code \<Rightarrow> failure code (errorMessage response)
                | None \<Rightarrow> skip)
               (success (assets response)))"

text \<open>
  \<open>handleFilePickerPromise\<close> awaits the promise of the document picker inside a
  \<^verbatim>\<open>try\<close>: a rejection, and also an exception of the success callback, reaches the
  \<^verbatim>\<open>catch\<close>. \<open>isCancel\<close> is \<^verbatim>\<open>DocumentPicker.isCancel\<close>, the picker's own test for a
  cancellation. The error callback gets the error alone, so its message is \<open>None\<close>.
\<close>

definition handleFilePickerPromise ::
  "('x \<Rightarrow> bool) \<Rightarrow> ('a list, 'x) PromiseSettledResult \<Rightarrow>
   ('a, 's, 'x) SuccessCallback \<Rightarrow> ('x, 's, 'x) ErrorCallback \<Rightarrow> ('s, 'x) effect" where
  "handleFilePickerPromise isCancel promise success failure =
     try_catch
       (case promise of
          fulfilled result \<Rightarrow> success (Some result)
        | rejected err \<Rightarrow> throw err)
       (\<lambda>err. if isCancel err then skip else failure err None)"

text \<open>
  The callbacks of the example application print their arguments:
  \<^verbatim>\<open>(assets) => console.log(assets)\<close> and
  \<^verbatim>\<open>(err, errms) => console.log({ err, errms })\<close>. The state is the console, the list of
  what was printed; it records every call of a callback with its arguments.
\<close>

datatype ('a, 'c) printed = Assets "'a list option" | Err 'c "string option"

definition console_log :: "'p \<Rightarrow> ('p list, 'x) effect" where
  "console_log v console = (None, console @ [v])"

definition logAssets :: "('a, ('a, 'c) printed list, 'x) SuccessCallback" where
  "logAssets a = console_log (Assets a)"

definition logError :: "('c, ('a, 'c) printed list, 'x) ErrorCallback" where
  "logError err errms = console_log (Err err errms)"

fun is_Err :: "('a, 'c) printed \<Rightarrow> bool" where
  "is_Err (Err c m) = True"
| "is_Err (Assets a) = False"

section \<open>Example inputs\<close>

text \<open>
  The two items of the specification's scenarios, a JPEG image and a PDF document, and
  networks on which both requests succeed, the second is rejected, and both are
  rejected (the second one first). A response is its HTTP status code here.
\<close>

definition scenario_items :: "FileToUpload list" where
  "scenario_items =
     [\<lparr>data = \<lparr>uri = ''a'', type = Some ''image/jpeg'', fileName = None, name = None\<rparr>,
       uploadUrl = ''https://upload.example/a''\<rparr>,
      \<lparr>data = \<lparr>uri = ''b'', type = Some ''application/pdf'', fileName = None, name = None\<rparr>,
       uploadUrl = ''https://upload.example/b''\<rparr>]"

definition fetch_both_succeed :: "(nat, string) fetch" where
  "fetch_both_succeed i req = \<lparr>settledAt = i, outcome = fulfilled 200\<rparr>"

definition fetch_second_rejects :: "(nat, string) fetch" where
  "fetch_second_rejects i req =
     (if i = 1 then \<lparr>settledAt = 1, outcome = rejected ''Network request failed''\<rparr>
      else \<lparr>settledAt = i, outcome = fulfilled 200\<rparr>)"

definition fetch_both_reject :: "(nat, string) fetch" where
  "fetch_both_reject i req =
     (if i = 0 then \<lparr>settledAt = 5, outcome = rejected ''timed out''\<rparr>
      else \<lparr>settledAt = 2, outcome = rejected ''connection refused''\<rparr>)"

text \<open>An item whose data has no \<open>type\<close>, as an asset of the image picker may be.\<close>

definition untyped_item :: "FileToUpload" where
  "untyped_item =
     \<lparr>data = \<lparr>uri = ''c'', type = None, fileName = Some ''c.bin'', name = None\<rparr>,
      uploadUrl = ''https://upload.example/c''\<rparr>"

text \<open>
  Responses of the image picker: the user dismissed the picker, and the platform
  reported an error. An asset is its URI here. \<open>isCancel_code\<close> recognises the
  cancellation of the document picker by its code.
\<close>

definition cancelled_response :: "string ImagePickerResponse" where
  "cancelled_response =
     \<lparr>assets = None, didCancel = Some True, errorCode = None, errorMessage = None\<rparr>"

definition failed_response :: "string ImagePickerResponse" where
  "failed_response =
     \<lparr>assets = None, didCancel = None, errorCode = Some camera_unavailable,
      errorMessage = Some ''no camera''\<rparr>"

definition isCancel_code :: "string \<Rightarrow> bool" where
  "isCancel_code e = (e = ''DOCUMENT_PICKER_CANCELED'')"

section \<open>Properties of the run time\<close>

lemma array_map_length: "array_map f i xs = Inr ys \<Longrightarrow> length ys = length xs"
  by (induction xs arbitrary: i ys) (auto split: sum.splits)

lemma array_map_nth:
  "array_map f i xs = Inr ys \<Longrightarrow> k < length xs \<Longrightarrow> f (i + k) (xs ! k) = Inr (ys ! k)"
proof (induction xs arbitrary: i ys k)
  case Nil
  then show ?case by simp
next
  case (Cons x xs)
  from Cons.prems obtain y ys' where y: "f i x = Inr y"
    and ys': "array_map f (Suc i) xs = Inr ys'" and ys: "ys = y # ys'"
    by (auto split: sum.splits)
  show ?case
  proof (cases k)
    case 0
    with y ys show ?thesis by simp
  next
    case (Suc j)
    with Cons.prems have "j < length xs" by simp
    from Cons.IH [OF ys' this] Suc ys show ?thesis by simp
  qed
qed

lemma array_map_Inr_iff:
  "(\<exists>ys. array_map f i xs = Inr ys) \<longleftrightarrow> (\<forall>k < length xs. \<exists>y. f (i + k) (xs ! k) = Inr y)"
proof (induction xs arbitrary: i)
  case Nil
  then show ?case by simp
next
  case (Cons x xs)
  show ?case
  proof
    assume "\<exists>ys. array_map f i (x # xs) = Inr ys"
    then obtain ys where ys: "array_map f i (x # xs) = Inr ys" by blast
    show "\<forall>k<length (x # xs). \<exists>y. f (i + k) ((x # xs) ! k) = Inr y"
      using array_map_nth [OF ys] by blast
  next
    assume a: "\<forall>k<length (x # xs). \<exists>y. f (i + k) ((x # xs) ! k) = Inr y"
    from a [rule_format, of 0] obtain y where y: "f i x = Inr y" by auto
    have "\<forall>k<length xs. \<exists>y. f (Suc i + k) (xs ! k) = Inr y"
      using a [rule_format, of "Suc k" for k] by auto
    with Cons.IH [of "Suc i"] obtain ys where "array_map f (Suc i) xs = Inr ys" by blast
    with y show "\<exists>ys. array_map f i (x # xs) = Inr ys" by simp
  qed
qed

lemma startUpload_Inr_iff:
  "(\<exists>p. startUpload fetch i file = Inr p) \<longleftrightarrow> type (data file) \<noteq> None"
  by (auto simp: startUpload_def buildFormData_def split: option.splits)

lemma launch_Inr_iff:
  "(\<exists>promises. launch fetch files = Inr promises) \<longleftrightarrow> (\<forall>file \<in> set files. type (data file) \<noteq> None)"
  unfolding launch_def array_map_Inr_iff startUpload_Inr_iff
  by (simp add: all_set_conv_all_nth)

lemma launch_length: "launch fetch files = Inr promises \<Longrightarrow> length promises = length files"
  unfolding launch_def by (rule array_map_length)

lemma not_fulfilled_iff: "\<not> is_fulfilled r \<longleftrightarrow> is_rejected r"
  by (cases r) auto

lemma not_rejected_iff: "\<not> is_rejected r \<longleftrightarrow> is_fulfilled r"
  by (cases r) auto

lemma first_rejection_None_iff:
  "first_rejection ps = None \<longleftrightarrow> (\<forall>p \<in> set ps. is_fulfilled (outcome p))"
  by (induction ps) (auto split: PromiseSettledResult.splits option.splits)

lemma first_rejection_Some:
  "first_rejection ps = Some (t, e) \<Longrightarrow>
     (\<exists>p \<in> set ps. outcome p = rejected e \<and> settledAt p = t) \<and>
     (\<forall>q \<in> set ps. is_rejected (outcome q) \<longrightarrow> t \<le> settledAt q)"
proof (induction ps arbitrary: t e)
  case Nil
  then show ?case by simp
next
  case (Cons p ps)
  show ?case
  proof (cases "outcome p")
    case (fulfilled v)
    with Cons show ?thesis by auto
  next
    case (rejected e0)
    show ?thesis
    proof (cases "first_rejection ps")
      case None
      then have "\<forall>q \<in> set ps. \<not> is_rejected (outcome q)"
        by (simp add: first_rejection_None_iff not_rejected_iff)
      with Cons.prems rejected None show ?thesis by auto
    next
      case (Some te)
      obtain t1 e1 where te: "te = (t1, e1)" by (cases te)
      from Cons.IH [of t1 e1] Some te
      have ih: "(\<exists>p \<in> set ps. outcome p = rejected e1 \<and> settledAt p = t1) \<and>
        (\<forall>q \<in> set ps. is_rejected (outcome q) \<longrightarrow> t1 \<le> settledAt q)" by simp
      show ?thesis
      proof (cases "settledAt p \<le> t1")
        case True
        with Cons.prems rejected Some te have "t = settledAt p" "e = e0" by auto
        with ih True rejected show ?thesis by fastforce
      next
        case False
        with Cons.prems rejected Some te have "t = t1" "e = e1" by auto
        with ih False rejected show ?thesis by fastforce
      qed
    qed
  qed
qed


lemma length_filter_eq_iff: "length (filter P xs) = length xs \<longleftrightarrow> (\<forall>x \<in> set xs. P x)"
proof (induction xs)
  case Nil
  then show ?case by simp
next
  case (Cons x xs)
  have le: "length (filter P xs) \<le> length xs" by (rule length_filter_le)
  show ?case
  proof (cases "P x")
    case True
    with Cons show ?thesis by simp
  next
    case False
    from le have "length (filter P xs) \<noteq> Suc (length xs)" by arith
    with False show ?thesis by simp
  qed
qed

section \<open>Properties of \<open>uploadFiles\<close>\<close>

text \<open>
  \<open>launch fetch files = Inr promises\<close> says that every item of \<open>files\<close> carries a
  type, so that the \<open>map\<close> ran to its end, and names the promises \<open>fetch\<close> returned,
  one for each item and in the order of the items.
\<close>

lemma uploadFiles_strict:
  assumes "launch fetch files = Inr promises"
  shows "uploadFiles fetch files True =
    (case first_rejection promises of
       None \<Rightarrow> Inr \<lparr>status = ''ALL_FILES_UPLOADED'', ok = True, error = None, failedUploads = None\<rparr>
     | Some (t, e) \<Rightarrow> Inr \<lparr>status = ''AN_UPLOAD_FAILED'', ok = False, error = Some e, failedUploads = None\<rparr>)"
  using assms by (simp add: uploadFiles_def Promise_all_def split: option.splits)

lemma uploadFiles_best_effort:
  assumes "launch fetch files = Inr promises"
  shows "uploadFiles fetch files False =
    Inr \<lparr>status = ''ONE_OR_MORE_UPLOADS_FAILED'',
         ok = (\<exists>p \<in> set promises. is_fulfilled (outcome p)),
         error = None,
         failedUploads = Some (filter is_rejected (map outcome promises))\<rparr>"
proof -
  have "length (filter is_rejected (map outcome promises)) = length (map outcome promises)
        \<longleftrightarrow> \<not> (\<exists>p \<in> set promises. is_fulfilled (outcome p))"
    by (simp add: length_filter_eq_iff not_fulfilled_iff)
  with assms show ?thesis
    by (simp add: uploadFiles_def Promise_allSettled_def Let_def)
qed

lemma launch_scenario:
  "launch fetch scenario_items =
     Inr [fetch 0 \<lparr>url = ''https://upload.example/a'', http_method = ''POST'',
                    body = [(''image'', FormDataPart ''a'' ''image/jpeg'' None)]\<rparr>,
          fetch 1 \<lparr>url = ''https://upload.example/b'', http_method = ''POST'',
                    body = [(''file'', FormDataPart ''b'' ''application/pdf'' None)]\<rparr>]"
  by (simp add: launch_def scenario_items_def startUpload_def buildFormData_def
      FormData_append_def determineFileOrImage_def String_includes_def js_or_def
      sublist_code prefix_code)

lemma uploadFiles_missing_type:
  assumes "\<exists>file \<in> set files. type (data file) = None"
  shows "uploadFiles fetch files strict = Inl TypeError"
proof -
  from assms have "\<not> (\<exists>promises. launch fetch files = Inr promises)"
    unfolding launch_Inr_iff by blast
  then obtain e where "launch fetch files = Inl e"
    by (cases "launch fetch files") auto
  then show ?thesis
    by (cases e) (simp add: uploadFiles_def)
qed

text \<open>
  Claim C1. For a non-empty list of items of which at least one request succeeds,
  \<open>uploadFiles\<close> with \<open>strict = false\<close> resolves with \<open>ok = true\<close> under the status
  \<^verbatim>\<open>ONE_OR_MORE_UPLOADS_FAILED\<close>, and \<open>failedUploads\<close> holds exactly the settled
  results of the requests that were rejected, in their order (none when no request was
  rejected).
\<close>

theorem uploadFiles_partial_success:
  assumes "launch fetch files = Inr promises"
    and "files \<noteq> []"
    and "\<exists>p \<in> set promises. is_fulfilled (outcome p)"
  shows "uploadFiles fetch files False =
    Inr \<lparr>status = ''ONE_OR_MORE_UPLOADS_FAILED'', ok = True, error = None,
         failedUploads = Some (filter is_rejected (map outcome promises))\<rparr>"
  using assms(3) by (simp add: uploadFiles_best_effort [OF assms(1)])

theorem uploadFiles_partial_success_witness:
  "launch fetch_second_rejects scenario_items =
     Inr [\<lparr>settledAt = 0, outcome = fulfilled 200\<rparr>,
          \<lparr>settledAt = 1, outcome = rejected ''Network request failed''\<rparr>] \<and>
   scenario_items \<noteq> [] \<and>
   (\<exists>p \<in> set [\<lparr>settledAt = 0, outcome = fulfilled 200\<rparr>,
                \<lparr>settledAt = 1, outcome = rejected ''Network request failed''\<rparr>].
      is_fulfilled (outcome p)) \<and>
   uploadFiles fetch_second_rejects scenario_items False =
     Inr \<lparr>status = ''ONE_OR_MORE_UPLOADS_FAILED'', ok = True, error = None,
          failedUploads = Some [rejected ''Network request failed'']\<rparr>"
proof -
  have l: "launch fetch_second_rejects scenario_items =
     Inr [\<lparr>settledAt = 0, outcome = fulfilled 200\<rparr>,
          \<lparr>settledAt = 1, outcome = rejected ''Network request failed''\<rparr>]"
    by (simp add: launch_scenario fetch_second_rejects_def)
  have n: "scenario_items \<noteq> []"
    by (simp add: scenario_items_def)
  have f: "\<exists>p \<in> set [\<lparr>settledAt = 0, outcome = fulfilled (200::nat)\<rparr>,
                \<lparr>settledAt = 1, outcome = rejected ''Network request failed''\<rparr>].
      is_fulfilled (outcome p)"
    by simp
  show ?thesis
    using l n f uploadFiles_partial_success [OF l n f] by simp
qed

text \<open>
  Claim C2. For a non-empty list of items and \<open>strict = true\<close>, when some request is
  rejected \<open>uploadFiles\<close> resolves with \<^verbatim>\<open>{status: 'AN_UPLOAD_FAILED', ok: false}\<close>
  and the error of the rejection that came first: the reason of a rejected request that
  no other rejected request settles before. The outcome has no \<open>failedUploads\<close>, so the
  results of the other requests are not in it.
\<close>

theorem uploadFiles_fail_fast:
  assumes "launch fetch files = Inr promises"
    and "files \<noteq> []"
    and "\<exists>p \<in> set promises. is_rejected (outcome p)"
  shows "\<exists>p \<in> set promises. \<exists>e.
      outcome p = rejected e \<and>
      (\<forall>q \<in> set promises. is_rejected (outcome q) \<longrightarrow> settledAt p \<le> settledAt q) \<and>
      uploadFiles fetch files True =
        Inr \<lparr>status = ''AN_UPLOAD_FAILED'', ok = False, error = Some e, failedUploads = None\<rparr>"
proof -
  from assms(3) have "first_rejection promises \<noteq> None"
    by (auto simp: first_rejection_None_iff not_fulfilled_iff [symmetric])
  then obtain t e where fr: "first_rejection promises = Some (t, e)"
    by (cases "first_rejection promises") auto
  from first_rejection_Some [OF fr] obtain p where p: "p \<in> set promises"
    "outcome p = rejected e" "settledAt p = t"
    and least: "\<forall>q \<in> set promises. is_rejected (outcome q) \<longrightarrow> t \<le> settledAt q"
    by blast
  have "uploadFiles fetch files True =
      Inr \<lparr>status = ''AN_UPLOAD_FAILED'', ok = False, error = Some e, failedUploads = None\<rparr>"
    by (simp add: uploadFiles_strict [OF assms(1)] fr)
  with p least show ?thesis by blast
qed

theorem uploadFiles_fail_fast_witness:
  "launch fetch_both_reject scenario_items =
     Inr [\<lparr>settledAt = 5, outcome = rejected ''timed out''\<rparr>,
          \<lparr>settledAt = 2, outcome = rejected ''connection refused''\<rparr>] \<and>
   scenario_items \<noteq> [] \<and>
   (\<exists>p \<in> set [\<lparr>settledAt = 5, outcome = rejected ''timed out''\<rparr>,
                \<lparr>settledAt = 2, outcome = rejected ''connection refused''\<rparr>].
      is_rejected (outcome p :: (nat, string) PromiseSettledResult)) \<and>
   uploadFiles fetch_both_reject scenario_items True =
     Inr \<lparr>status = ''AN_UPLOAD_FAILED'', ok = False, error = Some ''connection refused'',
          failedUploads = None\<rparr>"
proof -
  let ?ps = "[\<lparr>settledAt = 5, outcome = rejected ''timed out''\<rparr>,
              \<lparr>settledAt = 2, outcome = rejected ''connection refused''\<rparr>]
             :: (nat, string) promise list"
  have l: "launch fetch_both_reject scenario_items = Inr ?ps"
    by (simp add: launch_scenario fetch_both_reject_def)
  have n: "scenario_items \<noteq> []"
    by (simp add: scenario_items_def)
  have r: "\<exists>p \<in> set ?ps. is_rejected (outcome p)"
    by simp
  from uploadFiles_fail_fast [OF l n r]
  have "uploadFiles fetch_both_reject scenario_items True =
     Inr \<lparr>status = ''AN_UPLOAD_FAILED'', ok = False, error = Some ''connection refused'',
          failedUploads = None\<rparr>"
    by auto
  with l n r show ?thesis by simp
qed

text \<open>
  Claim C3. For a non-empty list of items whose requests are all rejected,
  \<open>uploadFiles\<close> with \<open>strict = false\<close> resolves with \<open>ok = false\<close>, and
  \<open>failedUploads\<close> holds the rejected results of all the items, one for each. The
  outcome is not the one of a partial success, whatever its list of failures.
\<close>

theorem uploadFiles_all_failed:
  assumes "launch fetch files = Inr promises"
    and "files \<noteq> []"
    and "\<forall>p \<in> set promises. is_rejected (outcome p)"
  shows "uploadFiles fetch files False =
      Inr \<lparr>status = ''ONE_OR_MORE_UPLOADS_FAILED'', ok = False, error = None,
           failedUploads = Some (map outcome promises)\<rparr> \<and>
    length (map outcome promises) = length files \<and>
    (\<forall>failed. uploadFiles fetch files False \<noteq>
      Inr \<lparr>status = ''ONE_OR_MORE_UPLOADS_FAILED'', ok = True, error = None,
           failedUploads = failed\<rparr>)"
proof -
  from assms(3) have none: "\<not> (\<exists>p \<in> set promises. is_fulfilled (outcome p))"
    by (simp add: not_rejected_iff [symmetric])
  from assms(3) have all: "filter is_rejected (map outcome promises) = map outcome promises"
    by (simp add: filter_id_conv)
  have "uploadFiles fetch files False =
      Inr \<lparr>status = ''ONE_OR_MORE_UPLOADS_FAILED'', ok = False, error = None,
           failedUploads = Some (map outcome promises)\<rparr>"
    using none all by (simp add: uploadFiles_best_effort [OF assms(1)])
  then show ?thesis
    by (simp add: launch_length [OF assms(1)])
qed

theorem uploadFiles_all_failed_witness:
  "launch fetch_both_reject scenario_items =
     Inr [\<lparr>settledAt = 5, outcome = rejected ''timed out''\<rparr>,
          \<lparr>settledAt = 2, outcome = rejected ''connection refused''\<rparr>] \<and>
   scenario_items \<noteq> [] \<and>
   is_rejected (rejected ''timed out'' :: (nat, string) PromiseSettledResult) \<and>
   is_rejected (rejected ''connection refused'' :: (nat, string) PromiseSettledResult) \<and>
   uploadFiles fetch_both_reject scenario_items False =
     Inr \<lparr>status = ''ONE_OR_MORE_UPLOADS_FAILED'', ok = False, error = None,
          failedUploads = Some [rejected ''timed out'', rejected ''connection refused'']\<rparr>"
proof -
  let ?ps = "[\<lparr>settledAt = 5, outcome = rejected ''timed out''\<rparr>,
              \<lparr>settledAt = 2, outcome = rejected ''connection refused''\<rparr>]
             :: (nat, string) promise list"
  have l: "launch fetch_both_reject scenario_items = Inr ?ps"
    by (simp add: launch_scenario fetch_both_reject_def)
  have n: "scenario_items \<noteq> []"
    by (simp add: scenario_items_def)
  have r: "\<forall>p \<in> set ?ps. is_rejected (outcome p)"
    by simp
  show ?thesis
    using l n r uploadFiles_all_failed [OF l n r] by simp
qed

text \<open>
  Claim C4. For the empty list of items \<open>uploadFiles\<close> resolves with a success
  (\<open>ok = true\<close>) under \<open>strict = true\<close>. Under \<open>strict = false\<close> it does not: no
  result is rejected and none exists, the two lengths compared are both zero, and the
  outcome is the one of a complete failure, \<open>ok = false\<close> with an empty
  \<open>failedUploads\<close>.
\<close>

theorem uploadFiles_empty:
  "uploadFiles fetch [] False =
     Inr \<lparr>status = ''ONE_OR_MORE_UPLOADS_FAILED'', ok = False, error = None,
          failedUploads = Some []\<rparr> \<and>
   uploadFiles fetch [] True =
     Inr \<lparr>status = ''ALL_FILES_UPLOADED'', ok = True, error = None, failedUploads = None\<rparr>"
  by (simp add: uploadFiles_def launch_def Promise_all_def Promise_allSettled_def)

text \<open>
  Claim C5. For a non-empty list of items whose requests all succeed, \<open>uploadFiles\<close>
  with \<open>strict = true\<close> resolves with \<^verbatim>\<open>{status: 'ALL_FILES_UPLOADED', ok: true}\<close>.
\<close>

theorem uploadFiles_all_succeeded:
  assumes "launch fetch files = Inr promises"
    and "files \<noteq> []"
    and "\<forall>p \<in> set promises. is_fulfilled (outcome p)"
  shows "uploadFiles fetch files True =
      Inr \<lparr>status = ''ALL_FILES_UPLOADED'', ok = True, error = None, failedUploads = None\<rparr>"
proof -
  from assms(3) have "first_rejection promises = None"
    by (simp add: first_rejection_None_iff)
  then show ?thesis
    by (simp add: uploadFiles_strict [OF assms(1)])
qed

theorem uploadFiles_all_succeeded_witness:
  "launch fetch_both_succeed scenario_items =
     Inr [\<lparr>settledAt = 0, outcome = fulfilled 200\<rparr>,
          \<lparr>settledAt = 1, outcome = fulfilled 200\<rparr>] \<and>
   scenario_items \<noteq> [] \<and>
   is_fulfilled (fulfilled 200 :: (nat, string) PromiseSettledResult) \<and>
   uploadFiles fetch_both_succeed scenario_items True =
     Inr \<lparr>status = ''ALL_FILES_UPLOADED'', ok = True, error = None, failedUploads = None\<rparr>"
proof -
  let ?ps = "[\<lparr>settledAt = 0, outcome = fulfilled 200\<rparr>,
              \<lparr>settledAt = 1, outcome = fulfilled 200\<rparr>] :: (nat, string) promise list"
  have l: "launch fetch_both_succeed scenario_items = Inr ?ps"
    by (simp add: launch_scenario fetch_both_succeed_def)
  have n: "scenario_items \<noteq> []"
    by (simp add: scenario_items_def)
  have f: "\<forall>p \<in> set ?ps. is_fulfilled (outcome p)"
    by simp
  show ?thesis
    using l n f uploadFiles_all_succeeded [OF l n f] by simp
qed

text \<open>
  Claim C6. The form posted for an item has one field, named \<^verbatim>\<open>image\<close> when the
  item's type contains the substring \<^verbatim>\<open>image\<close> and \<^verbatim>\<open>file\<close> otherwise. The type
  \<^verbatim>\<open>image/png\<close> gives the field \<^verbatim>\<open>image\<close>, and \<^verbatim>\<open>application/pdf\<close> gives
  \<^verbatim>\<open>file\<close>.
\<close>

theorem form_field_name:
  assumes "type (data file) = Some fileType"
  shows "(\<exists>part. startUpload fetch i file =
           Inr (fetch i \<lparr>url = uploadUrl file, http_method = ''POST'',
                  body = [(if \<exists>pre post. fileType = pre @ ''image'' @ post
                           then ''image'' else ''file'', part)]\<rparr>)) \<and>
         determineFileOrImage ''image/png'' = ''image'' \<and>
         determineFileOrImage ''application/pdf'' = ''file''"
proof -
  have "determineFileOrImage fileType =
      (if \<exists>pre post. fileType = pre @ ''image'' @ post then ''image'' else ''file'')"
    unfolding determineFileOrImage_def String_includes_def sublist_def ..
  with assms have "startUpload fetch i file =
           Inr (fetch i \<lparr>url = uploadUrl file, http_method = ''POST'',
                  body = [(if \<exists>pre post. fileType = pre @ ''image'' @ post
                           then ''image'' else ''file'',
                           FormDataPart (uri (data file)) fileType
                             (js_or (fileName (data file)) (name (data file))))]\<rparr>)"
    by (simp add: startUpload_def buildFormData_def FormData_append_def)
  then have "\<exists>part. startUpload fetch i file =
           Inr (fetch i \<lparr>url = uploadUrl file, http_method = ''POST'',
                  body = [(if \<exists>pre post. fileType = pre @ ''image'' @ post
                           then ''image'' else ''file'', part)]\<rparr>)"
    by (rule exI)
  moreover have "determineFileOrImage ''image/png'' = ''image''"
    by (simp add: determineFileOrImage_def String_includes_def sublist_code prefix_code)
  moreover have "determineFileOrImage ''application/pdf'' = ''file''"
    by (simp add: determineFileOrImage_def String_includes_def sublist_code prefix_code)
  ultimately show ?thesis by blast
qed

theorem form_field_name_witness:
  "type (data \<lparr>data = \<lparr>uri = ''p'', type = Some ''image/png'', fileName = Some ''p.png'',
                      name = None\<rparr>, uploadUrl = ''https://upload.example/p''\<rparr>) =
     Some ''image/png'' \<and>
   (\<exists>pre post. ''image/png'' = pre @ ''image'' @ post) \<and>
   (\<exists>part. startUpload fetch_both_succeed 0
       \<lparr>data = \<lparr>uri = ''p'', type = Some ''image/png'', fileName = Some ''p.png'',
                name = None\<rparr>, uploadUrl = ''https://upload.example/p''\<rparr> =
     Inr (fetch_both_succeed 0 \<lparr>url = ''https://upload.example/p'', http_method = ''POST'',
            body = [(''image'', part)]\<rparr>))"
proof -
  let ?file = "\<lparr>data = \<lparr>uri = ''p'', type = Some ''image/png'', fileName = Some ''p.png'',
                      name = None\<rparr>, uploadUrl = ''https://upload.example/p''\<rparr>"
  have t: "type (data ?file) = Some ''image/png''"
    by simp
  have i: "\<exists>pre post. ''image/png'' = pre @ ''image'' @ post"
    by (rule exI [of _ "[]"], rule exI [of _ "''/png''"]) simp
  from form_field_name [OF t, of fetch_both_succeed 0] i
  have "\<exists>part. startUpload fetch_both_succeed 0 ?file =
     Inr (fetch_both_succeed 0 \<lparr>url = ''https://upload.example/p'', http_method = ''POST'',
            body = [(''image'', part)]\<rparr>)"
    by simp
  with t i show ?thesis by blast
qed

text \<open>
  Claim C7. When every item carries a type, \<open>uploadFiles\<close> resolves with an outcome
  under one of its three status tags, for every network and under both values of
  \<open>strict\<close>: it never rejects.
\<close>

theorem uploadFiles_never_rejects:
  assumes "\<forall>file \<in> set files. type (data file) \<noteq> None"
  shows "\<exists>r. uploadFiles fetch files strict = Inr r \<and>
    status r \<in> {''ALL_FILES_UPLOADED'', ''AN_UPLOAD_FAILED'', ''ONE_OR_MORE_UPLOADS_FAILED''}"
proof -
  from assms obtain promises where l: "launch fetch files = Inr promises"
    using launch_Inr_iff [of fetch files] by blast
  show ?thesis
  proof (cases strict)
    case True
    then show ?thesis
      by (simp add: uploadFiles_strict [OF l] split: option.splits)
  next
    case False
    then show ?thesis
      by (simp add: uploadFiles_best_effort [OF l])
  qed
qed

theorem uploadFiles_never_rejects_witness:
  "map (type \<circ> data) scenario_items = [Some ''image/jpeg'', Some ''application/pdf''] \<and>
   (\<exists>r. uploadFiles fetch_second_rejects scenario_items True = Inr r \<and>
        status r \<in> {''ALL_FILES_UPLOADED'', ''AN_UPLOAD_FAILED'', ''ONE_OR_MORE_UPLOADS_FAILED''}) \<and>
   (\<exists>r. uploadFiles fetch_second_rejects scenario_items False = Inr r \<and>
        status r \<in> {''ALL_FILES_UPLOADED'', ''AN_UPLOAD_FAILED'', ''ONE_OR_MORE_UPLOADS_FAILED''})"
proof -
  have t: "\<forall>file \<in> set scenario_items. type (data file) \<noteq> None"
    by (simp add: scenario_items_def)
  have m: "map (type \<circ> data) scenario_items = [Some ''image/jpeg'', Some ''application/pdf'']"
    by (simp add: scenario_items_def)
  show ?thesis
    using m uploadFiles_never_rejects [OF t, of fetch_second_rejects True]
      uploadFiles_never_rejects [OF t, of fetch_second_rejects False]
    by blast
qed

section \<open>Properties of the picker handlers\<close>

text \<open>
  Claim C8. A cancellation calls no callback. On a response of the image library or of
  the camera whose \<open>didCancel\<close> is set, the handler returns with the caller's state as
  it was, whatever the two callbacks are; and when the promise of the document picker
  rejects with an error that \<open>isCancel\<close> recognises, \<open>handleFilePickerPromise\<close>
  resolves in the same way. With the callbacks that print their arguments, nothing is
  printed.
\<close>

theorem cancellation_invokes_no_callback:
  "(truthy (didCancel response) \<longrightarrow>
      handleImageLibraryResponse success failure response s = (None, s) \<and>
      handleCameraResponse success failure response s = (None, s)) \<and>
   (isCancel err \<longrightarrow>
      handleFilePickerPromise isCancel (rejected err) pick_success pick_failure s' = (None, s'))"
  by (simp add: handleImageLibraryResponse_def handleCameraResponse_def
      handleFilePickerPromise_def skip_def throw_def try_catch_def)

theorem cancellation_invokes_no_callback_witness:
  "truthy (didCancel cancelled_response) \<and>
   handleImageLibraryResponse logAssets logError cancelled_response [] =
     (None :: string option, [] :: (string, ErrorCode) printed list) \<and>
   handleCameraResponse logAssets logError cancelled_response [] =
     (None :: string option, [] :: (string, ErrorCode) printed list) \<and>
   isCancel_code ''DOCUMENT_PICKER_CANCELED'' \<and>
   handleFilePickerPromise isCancel_code (rejected ''DOCUMENT_PICKER_CANCELED'')
     logAssets logError [] = (None, [] :: (string, string) printed list)"
proof -
  have c: "truthy (didCancel cancelled_response)"
    by (simp add: truthy_def cancelled_response_def)
  have d: "isCancel_code ''DOCUMENT_PICKER_CANCELED''"
    by (simp add: isCancel_code_def)
  show ?thesis
    using c d by (simp add: cancellation_invokes_no_callback)
qed

text \<open>
  Claim C9. On a response that is not cancelled and reports an error, the error
  callback is called with the error code and the message of the response, unchanged:
  with the callbacks that print their arguments, the one error printed is that code
  with that message, for the image library and for the camera.
\<close>

theorem picker_error_forwarded:
  assumes "\<not> truthy (didCancel response)"
    and "errorCode response = Some code"
  shows "filter is_Err (snd (handleImageLibraryResponse logAssets logError response [])) =
           [Err code (errorMessage response)] \<and>
         filter is_Err (snd (handleCameraResponse logAssets logError response [])) =
           [Err code (errorMessage response)]"
  using assms
  by (simp add: handleImageLibraryResponse_def handleCameraResponse_def seq_def
      logAssets_def logError_def console_log_def)

theorem picker_error_forwarded_witness:
  "\<not> truthy (didCancel failed_response) \<and>
   errorCode failed_response = Some camera_unavailable \<and>
   filter is_Err (snd (handleImageLibraryResponse logAssets logError failed_response []
       :: string option \<times> (string, ErrorCode) printed list)) =
     [Err camera_unavailable (Some ''no camera'')] \<and>
   filter is_Err (snd (handleCameraResponse logAssets logError failed_response []
       :: string option \<times> (string, ErrorCode) printed list)) =
     [Err camera_unavailable (Some ''no camera'')]"
proof -
  have c: "\<not> truthy (didCancel failed_response)"
    by (simp add: truthy_def failed_response_def)
  have e: "errorCode failed_response = Some camera_unavailable"
    by (simp add: failed_response_def)
  have m: "errorMessage failed_response = Some ''no camera''"
    by (simp add: failed_response_def)
  show ?thesis
    using c e m by (simp add: picker_error_forwarded [OF c e])
qed

text \<open>
  Claim C10. On a response that is not cancelled and carries an error code, the
  handler is the error callback followed by the success callback on the \<open>assets\<close> of
  the response, which may be absent: the error branch does not return. With the
  callbacks that print their arguments, the error is printed and then the assets.
\<close>

theorem picker_error_runs_both_callbacks:
  assumes "\<not> truthy (didCancel response)"
    and "errorCode response = Some code"
  shows "handleImageLibraryResponse success failure response =
           seq (failure code (errorMessage response)) (success (assets response)) \<and>
         handleCameraResponse success failure response =
           seq (failure code (errorMessage response)) (success (assets response)) \<and>
         handleImageLibraryResponse logAssets logError response [] =
           (None, [Err code (errorMessage response), Assets (assets response)]) \<and>
         handleCameraResponse logAssets logError response [] =
           (None, [Err code (errorMessage response), Assets (assets response)])"
  using assms
  by (simp add: handleImageLibraryResponse_def handleCameraResponse_def seq_def
      logAssets_def logError_def console_log_def)

theorem picker_error_runs_both_callbacks_witness:
  "\<not> truthy (didCancel failed_response) \<and>
   errorCode failed_response = Some camera_unavailable \<and>
   handleImageLibraryResponse logAssets logError failed_response [] =
     (None :: string option, [Err camera_unavailable (Some ''no camera''), Assets None]) \<and>
   handleCameraResponse logAssets logError failed_response [] =
     (None :: string option, [Err camera_unavailable (Some ''no camera''), Assets None])"
proof -
  have c: "\<not> truthy (didCancel failed_response)"
    by (simp add: truthy_def failed_response_def)
  have e: "errorCode failed_response = Some camera_unavailable"
    by (simp add: failed_response_def)
  have m: "errorMessage failed_response = Some ''no camera''"
    and a: "assets failed_response = None"
    by (simp_all add: failed_response_def)
  show ?thesis
    using c e m a
    by (simp add: picker_error_runs_both_callbacks [OF c e, THEN conjunct2, THEN conjunct2])
qed

end
